theory Spec2Isabelle
  imports
    Complex_Main
    "HOL-Library.Char_ord"
    "HOL-Library.List_Lexorder"
    "HOL-Library.Product_Lexorder"
begin

section \<open>The campaign analysis dashboard (2.py)\<close>

text \<open>
  The script loads one CSV file into a pandas data frame, converts three date columns,
  adds the flags Overbooking, Underdelivery and SLA_Breach, and renders metrics, the
  flagged table, a CSV export and two rollup tables through Streamlit. The model below
  follows the script line by line.

  Modelling choices:
  \<^item> A data frame is its header (the list of column names) together with its rows. The
    rows are typed records; a column whose name is absent from the header is never read:
    every access to a column first checks the header and raises \<open>KeyError\<close> otherwise,
    as pandas does.
  \<^item> The impression columns hold integers (Python integers, no overflow); the identifier
    and dimension columns hold strings.
  \<^item> A converted date is a point on the time axis (an integer) or the missing marker
    \<open>NaT\<close>, modelled as \<open>None\<close>.
  \<^item> \<open>pd.to_datetime\<close> is library code and a parameter of the model: it receives a whole
    column and either raises or returns the converted column.
  \<^item> Arithmetic on Python floats is modelled exactly, over the rationals, extended by
    the values \<open>inf\<close>, \<open>-inf\<close> and \<open>nan\<close> where pandas divides by zero. Rounding of
    binary floating point numbers is outside the model.
  \<^item> What Streamlit shows is a list of events, in the order of the calls.
\<close>

subsection \<open>Data\<close>

type_synonym timestamp = int

datatype exn =
    KeyError "string list"
  | ZeroDivisionError
  | ConversionError string

record raw_row =
  raw_lead_id :: string
  raw_line_item_id :: string
  raw_page :: string
  raw_property :: string
  raw_booked :: int
  raw_delivered :: int
  raw_goal_start :: string
  raw_goal_end :: string
  raw_created :: string

record row =
  lead_id :: string
  line_item_id :: string
  page :: string
  property :: string
  booked :: int
  delivered :: int
  goal_start :: "timestamp option"
  goal_end :: "timestamp option"
  created :: "timestamp option"

text \<open>
  The frame after line 58: the columns of the file, the column \<open>Overbooking\<close> of line 41,
  the column \<open>Overbooking_grouped\<close> that the merge of line 48 adds, and the two row level
  flags.
\<close>

record flagged =
  src :: row
  overbooking :: bool
  overbooking_grouped :: "bool option"
  underdelivery :: bool
  sla_breach :: bool

record display_row =
  d_lead_id :: string
  d_line_item_id :: string
  d_page :: string
  d_property :: string
  d_booked :: int
  d_delivered :: int
  d_overbooking :: bool
  d_underdelivery :: bool
  d_sla_breach :: bool

datatype pyfloat = Fin rat | PosInf | NegInf | NaN

record rollup_row =
  dimension :: string
  booked_sum :: int
  delivered_sum :: int
  campaign_count :: nat
  overbooking_rate :: rat
  underdelivery_rate :: rat
  sla_breach_rate :: rat
  fill_rate_pct :: pyfloat

datatype event =
    Warning string
  | Error string
  | ErrorExn string exn
  | Write string
  | Header string
  | Subheader string
  | Metric string rat
  | Dataframe "display_row list"
  | DownloadButton "display_row list"
  | MetricsTable "rollup_row list"
  | Chart string

datatype 'a outcome = Done 'a | Stopped

subsection \<open>Constants (lines 15, 16, 25, 85)\<close>

definition PAGE_CAPACITY :: int where
  "PAGE_CAPACITY = 1500000"

definition sla_threshold :: int where
  "sla_threshold = 90"


definition show_columns :: "string list" where
  "show_columns = [''Lead ID'', ''Line item ID'', ''Page'', ''Property'',
     ''Booked Impressions'', ''Delivered Impressions'', ''Overbooking'', ''Underdelivery'',
     ''SLA_Breach'']"

text \<open>The nine columns that the message of line 269 lists.\<close>

definition required_columns :: "string list" where
  "required_columns = [''Lead ID'', ''Line item ID'', ''Page'', ''Property'',
     ''Booked Impressions'', ''Delivered Impressions'', ''Goal Start Date'', ''Goal End Date'',
     ''Created Time'']"

definition required_columns_message :: string where
  "required_columns_message =
     ''- Lead ID\<newline>- Line item ID\<newline>- Page\<newline>- Property\<newline>- Booked Impressions\<newline>- Delivered Impressions\<newline>- Goal Start Date\<newline>- Goal End Date\<newline>- Created Time''"

subsection \<open>Column access\<close>

text \<open>
  \<open>df[c]\<close> and \<open>df.groupby(c)\<close> raise \<open>KeyError\<close> for a name that is not in the header.
  \<open>require\<close> checks the names in the order in which the statement reads them and raises
  for the first one that is missing; \<open>require_all\<close> is \<open>df[list]\<close>, whose error names
  every missing label.
\<close>

definition require :: "string list \<Rightarrow> string list \<Rightarrow> exn option" where
  "require names cols =
     (case filter (\<lambda>c. c \<notin> set cols) names of
        [] \<Rightarrow> None
      | c # _ \<Rightarrow> Some (KeyError [c]))"

definition require_all :: "string list \<Rightarrow> string list \<Rightarrow> exn option" where
  "require_all names cols =
     (case filter (\<lambda>c. c \<notin> set cols) names of
        [] \<Rightarrow> None
      | c # cs \<Rightarrow> Some (KeyError (c # cs)))"

subsection \<open>Date conversion (lines 25 to 38)\<close>

text \<open>
  One turn of the loop over \<open>date_columns\<close>: a column that is not in the header is
  skipped; an exception of the conversion is reported and the script stops
  (\<open>st.stop()\<close>); otherwise the column is replaced and a warning naming the column is
  shown when the converted column has a missing entry. For a skipped column the typed
  row keeps \<open>None\<close>, which no later step reads.
\<close>

definition parse_warning :: "string \<Rightarrow> string" where
  "parse_warning col =
     ''Some '' @ col @ '' dates could not be parsed. Please ensure dates are in a standard format.''"

definition convert_column ::
  "(string list \<Rightarrow> exn + timestamp option list) \<Rightarrow> string list \<Rightarrow> string \<Rightarrow> string list
     \<Rightarrow> event list \<times> timestamp option list outcome" where
  "convert_column to_datetime cols col raw =
     (if col \<in> set cols then
        (case to_datetime raw of
           Inl e \<Rightarrow> ([ErrorExn (''Error parsing '' @ col @ '': '') e], Stopped)
         | Inr ds \<Rightarrow> ((if None \<in> set ds then [Warning (parse_warning col)] else []), Done ds))
      else ([], Done (map (\<lambda>_. None) raw)))"

definition mk_row :: "raw_row \<Rightarrow> timestamp option \<Rightarrow> timestamp option \<Rightarrow> timestamp option \<Rightarrow> row" where
  "mk_row r gs ge cr =
     \<lparr>lead_id = raw_lead_id r, line_item_id = raw_line_item_id r, page = raw_page r,
      property = raw_property r, booked = raw_booked r, delivered = raw_delivered r,
      goal_start = gs, goal_end = ge, created = cr\<rparr>"

text \<open>The loop, one turn for each of the three names of \<open>date_columns\<close>, in that order.\<close>

definition normalize_dates ::
  "(string list \<Rightarrow> exn + timestamp option list) \<Rightarrow> string list \<Rightarrow> raw_row list
     \<Rightarrow> event list \<times> row list outcome" where
  "normalize_dates to_datetime cols raws =
     (case convert_column to_datetime cols ''Goal Start Date'' (map raw_goal_start raws) of
        (e1, Stopped) \<Rightarrow> (e1, Stopped)
      | (e1, Done gs) \<Rightarrow>
          (case convert_column to_datetime cols ''Goal End Date'' (map raw_goal_end raws) of
             (e2, Stopped) \<Rightarrow> (e1 @ e2, Stopped)
           | (e2, Done ge) \<Rightarrow>
               (case convert_column to_datetime cols ''Created Time'' (map raw_created raws) of
                  (e3, Stopped) \<Rightarrow> (e1 @ e2 @ e3, Stopped)
                | (e3, Done cr) \<Rightarrow>
                    (e1 @ e2 @ e3,
                     Done (map (\<lambda>(r, g, e, c). mk_row r g e c) (zip raws (zip gs (zip ge cr))))))))"

subsection \<open>Overbooking (lines 40 to 49)\<close>

text \<open>
  \<open>groupby\<close> leaves out the rows that have a missing value in a key column (its default
  \<open>dropna=True\<close>), has one group for each distinct key, and sorts the groups by key.
\<close>

type_synonym group_key = "string \<times> string \<times> timestamp \<times> timestamp"

definition key_of :: "row \<Rightarrow> group_key option" where
  "key_of r =
     (case (goal_start r, goal_end r) of
        (Some s, Some e) \<Rightarrow> Some (page r, property r, s, e)
      | _ \<Rightarrow> None)"

text \<open>
  The four columns that line 42 groups by and line 48 merges on: the slot of a row.
\<close>

definition group_key :: "row \<Rightarrow> string \<times> string \<times> timestamp option \<times> timestamp option" where
  "group_key r = (page r, property r, goal_start r, goal_end r)"

definition groupby_sum :: "row list \<Rightarrow> (group_key \<times> int) list" where
  "groupby_sum rs =
     map (\<lambda>k. (k, sum_list (map booked (filter (\<lambda>r. key_of r = Some k) rs))))
       (sort (remdups (List.map_filter key_of rs)))"

text \<open>Line 45: the flag of a group.\<close>

definition group_flags :: "(group_key \<times> int) list \<Rightarrow> (group_key \<times> bool) list" where
  "group_flags grouped = map (\<lambda>(k, s). (k, s > PAGE_CAPACITY)) grouped"

text \<open>
  Line 48, \<open>df.merge(grouped[keys + ['Overbooking']], on=keys, how='left',
  suffixes=('', '_grouped'))\<close>. Both frames have a column \<open>Overbooking\<close> that is not a
  key, so the merge renames both with its suffixes: the column of the left frame gets the
  suffix \<open>''\<close> and keeps its name, the column of the right frame becomes
  \<open>Overbooking_grouped\<close>. \<open>merge_columns\<close> computes the header of the result.
\<close>

definition merge_columns ::
  "string list \<Rightarrow> string \<times> string \<Rightarrow> string list \<Rightarrow> string list \<Rightarrow> string list" where
  "merge_columns on suffixes lcols rcols =
     (let rrest = filter (\<lambda>c. c \<notin> set on) rcols;
          overlap = filter (\<lambda>c. c \<in> set rrest) (filter (\<lambda>c. c \<notin> set on) lcols)
      in map (\<lambda>c. if c \<in> set overlap then c @ fst suffixes else c) lcols @
         map (\<lambda>c. if c \<in> set overlap then c @ snd suffixes else c) rrest)"

text \<open>
  The rows of the left merge: every row of the left frame, in order, once for each row of
  the right frame with the same key, and once with a missing value when there is none.
  The left frame carries the column \<open>Overbooking\<close> of line 41.
\<close>

definition merge_left ::
  "(row \<times> bool) list \<Rightarrow> (group_key \<times> bool) list \<Rightarrow> (row \<times> bool \<times> bool option) list" where
  "merge_left left right =
     concat (map (\<lambda>(r, ob).
       (case filter (\<lambda>(k, f). key_of r = Some k) right of
          [] \<Rightarrow> [(r, ob, None)]
        | ms \<Rightarrow> map (\<lambda>(k, f). (r, ob, Some f)) ms)) left)"

definition add_overbooking :: "row list \<Rightarrow> (row \<times> bool \<times> bool option) list" where
  "add_overbooking rs =
     merge_left (map (\<lambda>r. (r, False)) rs) (group_flags (groupby_sum rs))"

subsection \<open>Row level flags (lines 51 to 58)\<close>

definition compute_underdelivery :: "row \<Rightarrow> bool" where
  "compute_underdelivery r = (delivered r < booked r)"

text \<open>A comparison of pandas timestamps is false when either side is \<open>NaT\<close>.\<close>

fun ts_gt :: "timestamp option \<Rightarrow> timestamp option \<Rightarrow> bool" where
  "ts_gt (Some a) (Some b) = (a > b)"
| "ts_gt _ _ = False"

definition compute_sla_breach :: "row \<Rightarrow> bool" where
  "compute_sla_breach r =
     (of_int (delivered r) < (of_int sla_threshold / 100) * (of_int (booked r) :: rat)
      \<or> ts_gt (created r) (goal_start r))"

subsection \<open>The flag pipeline (lines 40 to 58)\<close>

definition flag_engine :: "string list \<Rightarrow> row list \<Rightarrow> exn + flagged list" where
  "flag_engine cols rs =
     (case require [''Page'', ''Property'', ''Goal Start Date'', ''Goal End Date'',
                    ''Booked Impressions''] cols of
        Some e \<Rightarrow> Inl e
      | None \<Rightarrow>
          (let merged = add_overbooking rs in
           case require [''Delivered Impressions'', ''Booked Impressions''] cols of
             Some e \<Rightarrow> Inl e
           | None \<Rightarrow>
               (case require [''Delivered Impressions'', ''Booked Impressions'',
                              ''Created Time'', ''Goal Start Date''] cols of
                  Some e \<Rightarrow> Inl e
                | None \<Rightarrow>
                    Inr (map (\<lambda>(r, ob, obg).
                      \<lparr>src = r, overbooking = ob, overbooking_grouped = obg,
                       underdelivery = compute_underdelivery r,
                       sla_breach = compute_sla_breach r\<rparr>) merged))))"

text \<open>The header after line 58.\<close>

definition flagged_columns :: "string list \<Rightarrow> string list" where
  "flagged_columns cols =
     merge_columns [''Page'', ''Property'', ''Goal Start Date'', ''Goal End Date'']
       ('''', ''_grouped'')
       (if ''Overbooking'' \<in> set cols then cols else cols @ [''Overbooking''])
       [''Page'', ''Property'', ''Goal Start Date'', ''Goal End Date'', ''Overbooking'']
     @ filter (\<lambda>c. c \<notin> set cols) [''Underdelivery'', ''SLA_Breach'']"

subsection \<open>Overall metrics, table and export (lines 60 to 100)\<close>

definition fill_rate :: "flagged list \<Rightarrow> rat" where
  "fill_rate df =
     (let total_booked = sum_list (map (\<lambda>f. booked (src f)) df);
          total_delivered = sum_list (map (\<lambda>f. delivered (src f)) df)
      in if total_booked > 0 then of_int total_delivered / of_int total_booked * 100 else 0)"

text \<open>\<open>sum(df[c])\<close> for a column of booleans.\<close>

definition count_true :: "(flagged \<Rightarrow> bool) \<Rightarrow> flagged list \<Rightarrow> nat" where
  "count_true c df = length (filter c df)"

text \<open>\<open>df[show_columns]\<close>: the column \<open>Overbooking\<close> is the one of line 41.\<close>

definition select_show :: "flagged list \<Rightarrow> display_row list" where
  "select_show df =
     map (\<lambda>f. \<lparr>d_lead_id = lead_id (src f), d_line_item_id = line_item_id (src f),
                d_page = page (src f), d_property = property (src f),
                d_booked = booked (src f), d_delivered = delivered (src f),
                d_overbooking = overbooking f, d_underdelivery = underdelivery f,
                d_sla_breach = sla_breach f\<rparr>) df"

definition overall_metrics :: "flagged list \<Rightarrow> event list" where
  "overall_metrics df =
     [Header ''Overall Campaign Performance'',
      Metric ''Overall Fill Rate'' (fill_rate df),
      Header ''Campaign Performance Metrics'',
      Metric ''Total Campaigns'' (of_nat (length df)),
      Metric ''Overbooking Issues'' (of_nat (count_true overbooking df)),
      Metric ''Underdelivery Issues'' (of_nat (count_true underdelivery df)),
      Metric ''SLA Breaches'' (of_nat (count_true sla_breach df)),
      Header ''Campaign Data'']"

subsection \<open>Rollups by page and by property (lines 146 to 264)\<close>

text \<open>
  Division of two integer columns in pandas does not raise: a zero divisor gives \<open>inf\<close>,
  \<open>-inf\<close> or \<open>nan\<close>.
\<close>

definition pd_div :: "int \<Rightarrow> int \<Rightarrow> pyfloat" where
  "pd_div a b =
     (if b = 0 then (if a = 0 then NaN else if a > 0 then PosInf else NegInf)
      else Fin (of_int a / of_int b))"

fun pf_times :: "pyfloat \<Rightarrow> rat \<Rightarrow> pyfloat" where
  "pf_times (Fin x) c = Fin (x * c)"
| "pf_times NaN c = NaN"
| "pf_times PosInf c = (if c > 0 then PosInf else if c < 0 then NegInf else NaN)"
| "pf_times NegInf c = (if c > 0 then NegInf else if c < 0 then PosInf else NaN)"

text \<open>\<open>round(2)\<close> rounds to the nearest multiple of 1/100, a tie to the even one.\<close>

definition round_half_even :: "rat \<Rightarrow> int" where
  "round_half_even q =
     (let f = \<lfloor>q\<rfloor>; d = q - of_int f
      in if d < 1 / 2 then f else if d > 1 / 2 then f + 1 else if even f then f else f + 1)"

definition round2 :: "rat \<Rightarrow> rat" where
  "round2 x = of_int (round_half_even (x * 100)) / 100"

fun pf_round2 :: "pyfloat \<Rightarrow> pyfloat" where
  "pf_round2 (Fin x) = Fin (round2 x)"
| "pf_round2 v = v"

text \<open>The mean of a column of booleans over a group; a group is never empty.\<close>

definition mean_flag :: "(flagged \<Rightarrow> bool) \<Rightarrow> flagged list \<Rightarrow> rat" where
  "mean_flag c g = of_nat (length (filter c g)) / of_nat (length g)"

text \<open>
  \<open>df.groupby(d).agg(...)\<close>, the column \<open>Fill Rate\<close> of lines 161 and 221, and the rates
  as percentages (lines 172 and 232). \<open>count\<close> counts the entries of \<open>Lead ID\<close> of the
  group; the groups come sorted by key.
\<close>

definition metrics_by :: "(row \<Rightarrow> string) \<Rightarrow> flagged list \<Rightarrow> rollup_row list" where
  "metrics_by d df =
     map (\<lambda>k.
       (let g = filter (\<lambda>f. d (src f) = k) df;
            b = sum_list (map (\<lambda>f. booked (src f)) g);
            dl = sum_list (map (\<lambda>f. delivered (src f)) g)
        in \<lparr>dimension = k, booked_sum = b, delivered_sum = dl,
            campaign_count = length g,
            overbooking_rate = round2 (mean_flag overbooking g * 100),
            underdelivery_rate = round2 (mean_flag underdelivery g * 100),
            sla_breach_rate = round2 (mean_flag sla_breach g * 100),
            fill_rate_pct = pf_round2 (pf_times (pd_div dl b) 100)\<rparr>))
       (sort (remdups (map (\<lambda>f. d (src f)) df)))"

definition page_metrics :: "flagged list \<Rightarrow> rollup_row list" where
  "page_metrics df = metrics_by page df"

definition property_metrics :: "flagged list \<Rightarrow> rollup_row list" where
  "property_metrics df = metrics_by property df"

subsection \<open>Rendering (lines 60 to 264)\<close>

text \<open>
  The events of the rendering part and whether it raised. Line 88 raises when a column
  of \<open>show_columns\<close> is missing, lines 136 to 138 divide by \<open>len(df)\<close> with Python's
  division, which raises for an empty frame. A chart is the event \<open>Chart\<close> with its title.
\<close>

definition render :: "string list \<Rightarrow> flagged list \<Rightarrow> event list \<times> (exn + unit)" where
  "render cols df =
     (case require_all show_columns (flagged_columns cols) of
        Some e \<Rightarrow> (overall_metrics df, Inl e)
      | None \<Rightarrow>
          (let shown = overall_metrics df @
                 [Dataframe (select_show df), DownloadButton (select_show df),
                  Header ''True/False Analysis'', Chart ''Issue Distribution (True/False)'']
           in if length df = 0 then (shown, Inl ZeroDivisionError)
              else (shown @
                 [Chart ''Distribution of Issues (% of Total Campaigns)'',
                  Subheader ''Page-wise Analysis'',
                  MetricsTable (page_metrics df),
                  Chart ''Fill Rate by Page (%)'',
                  Chart ''Issue Rates by Page (%)'',
                  Subheader ''Property-wise Analysis'',
                  MetricsTable (property_metrics df),
                  Chart ''Fill Rate by Property (%)'',
                  Chart ''Issue Rates by Property (%)''], Inr ())))"

subsection \<open>The script for an uploaded file (lines 18 to 274)\<close>

definition except_block :: "exn \<Rightarrow> event list" where
  "except_block e =
     [ErrorExn ''Error processing data: '' e,
      Write ''Please make sure your CSV file has the required columns:'',
      Write required_columns_message,
      Error ''Date format issue detected. Your dates should be in a standard format like:'',
      Write ''- DD-MM-YYYY (e.g., 13-01-2025)'',
      Write ''- MM-DD-YYYY (e.g., 01-13-2025)'',
      Write ''- YYYY-MM-DD (e.g., 2025-01-13)'']"

definition run ::
  "(string list \<Rightarrow> exn + timestamp option list) \<Rightarrow> string list \<Rightarrow> raw_row list \<Rightarrow> event list" where
  "run to_datetime cols raws =
     (case normalize_dates to_datetime cols raws of
        (evs, Stopped) \<Rightarrow> evs
      | (evs, Done rs) \<Rightarrow>
          (case flag_engine cols rs of
             Inl e \<Rightarrow> evs @ except_block e
           | Inr df \<Rightarrow>
               (case render cols df of
                  (evs2, Inl e) \<Rightarrow> evs @ evs2 @ except_block e
                | (evs2, Inr u) \<Rightarrow> evs @ evs2)))"

subsection \<open>The sample table of the script (lines 281 to 291)\<close>


text \<open>
  A conversion for the dates of the sample table, as day numbers counted from
  1 January 1970; every other string is not a date.
\<close>

definition sample_dates :: "(string \<times> timestamp) list" where
  "sample_dates =
     [(''25-12-2024'', 20082), (''13-01-2025'', 20101), (''14-01-2025'', 20102),
      (''15-01-2025'', 20103), (''30-01-2025'', 20118), (''31-01-2025'', 20119),
      (''01-02-2025'', 20120), (''15-02-2025'', 20134), (''28-02-2025'', 20147)]"

definition sample_to_datetime :: "string list \<Rightarrow> exn + timestamp option list" where
  "sample_to_datetime col = Inr (map (map_of sample_dates) col)"

subsection \<open>Example tables\<close>

text \<open>
  Two bookings of one slot, 900,000 and 700,000 impressions, together above the
  capacity; the first delivered half of its booking, the second was created after its
  goal period began. \<open>slot_data\<close> is the table as uploaded, \<open>slot_rows\<close> the same
  table with its dates converted.
\<close>

definition slot_data :: "raw_row list" where
  "slot_data =
     [\<lparr>raw_lead_id = ''L001'', raw_line_item_id = ''LI001'', raw_page = ''Homepage'',
       raw_property = ''Website A'', raw_booked = 900000, raw_delivered = 450000,
       raw_goal_start = ''13-01-2025'', raw_goal_end = ''31-01-2025'',
       raw_created = ''25-12-2024''\<rparr>,
      \<lparr>raw_lead_id = ''L002'', raw_line_item_id = ''LI002'', raw_page = ''Homepage'',
       raw_property = ''Website A'', raw_booked = 700000, raw_delivered = 700000,
       raw_goal_start = ''13-01-2025'', raw_goal_end = ''31-01-2025'',
       raw_created = ''15-01-2025''\<rparr>]"

definition slot_rows :: "row list" where
  "slot_rows =
     [\<lparr>lead_id = ''L001'', line_item_id = ''LI001'', page = ''Homepage'',
       property = ''Website A'', booked = 900000, delivered = 450000,
       goal_start = Some 20101, goal_end = Some 20119, created = Some 20082\<rparr>,
      \<lparr>lead_id = ''L002'', line_item_id = ''LI002'', page = ''Homepage'',
       property = ''Website A'', booked = 700000, delivered = 700000,
       goal_start = Some 20101, goal_end = Some 20119, created = Some 20103\<rparr>]"

text \<open>
  A row that booked nothing and delivered five impressions, with a creation date that
  could not be converted.
\<close>

definition zero_booked_rows :: "row list" where
  "zero_booked_rows =
     [\<lparr>lead_id = ''L003'', line_item_id = ''LI003'', page = ''Article'',
       property = ''Website B'', booked = 0, delivered = 5,
       goal_start = Some 20101, goal_end = Some 20119, created = None\<rparr>]"


section \<open>Properties\<close>

subsection \<open>Column checks\<close>

lemma require_None:
  "set names \<subseteq> set cols \<Longrightarrow> require names cols = None"
proof -
  assume "set names \<subseteq> set cols"
  then have "filter (\<lambda>c. c \<notin> set cols) names = []"
    by (auto simp: filter_empty_conv)
  then show ?thesis by (simp add: require_def)
qed



subsection \<open>The merge keeps the rows of the left frame\<close>

lemma filter_key_distinct:
  "distinct (map fst xs) \<Longrightarrow>
   filter (\<lambda>(k, f). a = Some k) xs =
     (case a of None \<Rightarrow> [] | Some k \<Rightarrow> (case map_of xs k of None \<Rightarrow> [] | Some f \<Rightarrow> [(k, f)]))"
proof (induction xs)
  case Nil
  then show ?case by (simp split: option.splits)
next
  case (Cons x xs)
  obtain k f where x: "x = (k, f)" by (cases x)
  from Cons.prems x have nk: "k \<notin> fst ` set xs" and d: "distinct (map fst xs)" by auto
  from nk have "map_of xs k = None" by (simp add: map_of_eq_None_iff)
  with Cons.IH[OF d] x show ?case by (auto split: option.splits)
qed

lemma merge_left_distinct:
  assumes "distinct (map fst right)"
  shows "merge_left left right =
    map (\<lambda>(r, ob). (r, ob, (case key_of r of None \<Rightarrow> None | Some k \<Rightarrow> map_of right k))) left"
proof (induction left)
  case Nil
  show ?case by (simp add: merge_left_def)
next
  case (Cons x left)
  obtain r ob where x: "x = (r, ob)" by (cases x)
  have "merge_left (x # left) right =
     (case filter (\<lambda>(k, f). key_of r = Some k) right of
          [] \<Rightarrow> [(r, ob, None)]
        | ms \<Rightarrow> map (\<lambda>(k, f). (r, ob, Some f)) ms) @ merge_left left right"
    by (simp add: merge_left_def x)
  also have "(case filter (\<lambda>(k, f). key_of r = Some k) right of
          [] \<Rightarrow> [(r, ob, None)]
        | ms \<Rightarrow> map (\<lambda>(k, f). (r, ob, Some f)) ms) =
       [(r, ob, (case key_of r of None \<Rightarrow> None | Some k \<Rightarrow> map_of right k))]"
    by (simp add: filter_key_distinct[OF assms] split: option.splits)
  finally show ?case using Cons.IH by (simp add: x)
qed

lemma in_set_map_filter:
  "y \<in> set (List.map_filter f xs) \<longleftrightarrow> (\<exists>x\<in>set xs. f x = Some y)"
  by (induction xs) (auto split: option.splits)

lemma distinct_group_flags: "distinct (map fst (group_flags (groupby_sum rs)))"
  by (simp add: group_flags_def groupby_sum_def comp_def case_prod_unfold)

lemma map_of_group_flags:
  "map_of (group_flags (groupby_sum rs)) k =
     (if k \<in> set (List.map_filter key_of rs)
      then Some (sum_list (map booked (filter (\<lambda>r. key_of r = Some k) rs)) > PAGE_CAPACITY)
      else None)"
proof -
  have "group_flags (groupby_sum rs) =
     map (\<lambda>k. (k, sum_list (map booked (filter (\<lambda>r. key_of r = Some k) rs)) > PAGE_CAPACITY))
       (sort (remdups (List.map_filter key_of rs)))"
    by (simp add: group_flags_def groupby_sum_def)
  then show ?thesis
    by (simp add: map_of_map_restrict restrict_map_def)
qed

text \<open>
  What lines 41 to 49 compute: every row once, in order, the column \<open>Overbooking\<close> of
  line 41 unchanged, and in \<open>Overbooking_grouped\<close> the flag of the row's group (missing
  for a row with a missing date).
\<close>

lemma add_overbooking_eq:
  "add_overbooking rs =
     map (\<lambda>r. (r, False,
       (case key_of r of
          None \<Rightarrow> None
        | Some k \<Rightarrow>
            Some (sum_list (map booked (filter (\<lambda>r'. key_of r' = Some k) rs)) > PAGE_CAPACITY)))) rs"
proof -
  have "add_overbooking rs =
     map (\<lambda>r. (r, False,
       (case key_of r of None \<Rightarrow> None
        | Some k \<Rightarrow> map_of (group_flags (groupby_sum rs)) k))) rs"
    by (simp add: add_overbooking_def merge_left_distinct[OF distinct_group_flags] comp_def)
  also have "\<dots> = map (\<lambda>r. (r, False,
       (case key_of r of
          None \<Rightarrow> None
        | Some k \<Rightarrow>
            Some (sum_list (map booked (filter (\<lambda>r'. key_of r' = Some k) rs)) > PAGE_CAPACITY)))) rs"
  proof (rule map_cong[OF refl])
    fix r assume r: "r \<in> set rs"
    show "(r, False, (case key_of r of None \<Rightarrow> None
        | Some k \<Rightarrow> map_of (group_flags (groupby_sum rs)) k)) =
      (r, False, (case key_of r of None \<Rightarrow> None
        | Some k \<Rightarrow>
            Some (sum_list (map booked (filter (\<lambda>r'. key_of r' = Some k) rs)) > PAGE_CAPACITY)))"
    proof (cases "key_of r")
      case None
      then show ?thesis by simp
    next
      case (Some k)
      with r have "k \<in> set (List.map_filter key_of rs)"
        by (auto simp: in_set_map_filter)
      with Some show ?thesis by (simp add: map_of_group_flags)
    qed
  qed
  finally show ?thesis .
qed

lemma flag_engine_eq:
  assumes "set required_columns \<subseteq> set cols"
  shows "flag_engine cols rs =
     Inr (map (\<lambda>r.
       \<lparr>src = r, overbooking = False,
        overbooking_grouped =
          (case key_of r of
             None \<Rightarrow> None
           | Some k \<Rightarrow>
               Some (sum_list (map booked (filter (\<lambda>r'. key_of r' = Some k) rs)) > PAGE_CAPACITY)),
        underdelivery = compute_underdelivery r,
        sla_breach = compute_sla_breach r\<rparr>) rs)"
proof -
  from assms have
    "require [''Page'', ''Property'', ''Goal Start Date'', ''Goal End Date'',
              ''Booked Impressions''] cols = None"
    "require [''Delivered Impressions'', ''Booked Impressions''] cols = None"
    "require [''Delivered Impressions'', ''Booked Impressions'', ''Created Time'',
              ''Goal Start Date''] cols = None"
    by (auto intro!: require_None simp: required_columns_def)
  then show ?thesis
    by (simp add: flag_engine_def add_overbooking_eq comp_def)
qed

lemma flag_engine_Inr:
  assumes "flag_engine cols rs = Inr out"
  shows "out = map (\<lambda>(r, ob, obg).
                      \<lparr>src = r, overbooking = ob, overbooking_grouped = obg,
                       underdelivery = compute_underdelivery r,
                       sla_breach = compute_sla_breach r\<rparr>) (add_overbooking rs)"
  using assms by (auto simp: flag_engine_def Let_def split: option.splits)

subsection \<open>The flags of a row\<close>

lemma flag_engine_total:
  assumes "set required_columns \<subseteq> set cols"
  shows "\<exists>out. flag_engine cols rs = Inr out \<and> length out = length rs \<and>
     (\<forall>i<length rs. src (out ! i) = rs ! i \<and> \<not> overbooking (out ! i) \<and>
        underdelivery (out ! i) = compute_underdelivery (rs ! i) \<and>
        sla_breach (out ! i) = compute_sla_breach (rs ! i))"
  by (simp add: flag_engine_eq[OF assms])

lemma ts_gt_iff: "ts_gt a b \<longleftrightarrow> (\<exists>x y. a = Some x \<and> b = Some y \<and> y < x)"
  by (cases a; cases b) auto

text \<open>
  Claim C3. When the columns are there the flag pipeline returns a table with one row for
  each row of the input, in order, and the Underdelivery flag of a row is true exactly
  when its delivered impressions are below its booked impressions; no other row is
  involved.
\<close>

theorem underdelivery_per_row:
  assumes "set required_columns \<subseteq> set cols"
  shows "\<exists>out. flag_engine cols rs = Inr out \<and> length out = length rs \<and>
     (\<forall>i<length rs. src (out ! i) = rs ! i \<and>
        (underdelivery (out ! i) \<longleftrightarrow> delivered (rs ! i) < booked (rs ! i)))"
  using flag_engine_total[OF assms, of rs] by (auto simp: compute_underdelivery_def)

theorem underdelivery_per_row_witness:
  "\<exists>out. flag_engine required_columns slot_rows = Inr out \<and>
     underdelivery (out ! 0) \<and> \<not> underdelivery (out ! 1)"
proof -
  have h: "set required_columns \<subseteq> set required_columns" by simp
  from underdelivery_per_row[OF h, of slot_rows] obtain out where
    o: "flag_engine required_columns slot_rows = Inr out" and
    a: "\<forall>i<length slot_rows. src (out ! i) = slot_rows ! i \<and>
        (underdelivery (out ! i) \<longleftrightarrow> delivered (slot_rows ! i) < booked (slot_rows ! i))"
    by blast
  have l: "0 < length slot_rows" "1 < length slot_rows" by (simp_all add: slot_rows_def)
  from a l have "underdelivery (out ! 0) \<longleftrightarrow> delivered (slot_rows ! 0) < booked (slot_rows ! 0)"
    and "underdelivery (out ! 1) \<longleftrightarrow> delivered (slot_rows ! 1) < booked (slot_rows ! 1)"
    by blast+
  then have "underdelivery (out ! 0)" and "\<not> underdelivery (out ! 1)"
    by (simp_all add: slot_rows_def)
  with o show ?thesis by blast
qed



text \<open>
  Claim C8. For a row whose creation time or goal start date is missing the pipeline
  still returns, the comparison of the two dates is false, and SLA_Breach is decided by
  the delivery clause alone.
\<close>

theorem missing_date_not_late:
  assumes "set required_columns \<subseteq> set cols"
    and "i < length rs"
    and "created (rs ! i) = None \<or> goal_start (rs ! i) = None"
  shows "\<exists>out. flag_engine cols rs = Inr out \<and> length out = length rs \<and>
     src (out ! i) = rs ! i \<and>
     \<not> ts_gt (created (rs ! i)) (goal_start (rs ! i)) \<and>
     (sla_breach (out ! i) \<longleftrightarrow>
        of_int (delivered (rs ! i)) < (90 / 100 :: rat) * of_int (booked (rs ! i)))"
proof -
  from assms(3) have n: "\<not> ts_gt (created (rs ! i)) (goal_start (rs ! i))"
    by (auto simp: ts_gt_iff)
  from flag_engine_total[OF assms(1), of rs] obtain out where
    o: "flag_engine cols rs = Inr out" "length out = length rs" and
    a: "\<forall>i<length rs. src (out ! i) = rs ! i \<and> \<not> overbooking (out ! i) \<and>
        underdelivery (out ! i) = compute_underdelivery (rs ! i) \<and>
        sla_breach (out ! i) = compute_sla_breach (rs ! i)"
    by blast
  from a assms(2) have "src (out ! i) = rs ! i" "sla_breach (out ! i) = compute_sla_breach (rs ! i)"
    by blast+
  with n o show ?thesis
    by (simp add: compute_sla_breach_def sla_threshold_def)
qed

theorem missing_date_not_late_witness:
  "\<exists>out. flag_engine required_columns zero_booked_rows = Inr out \<and>
     created (zero_booked_rows ! 0) = None \<and> \<not> sla_breach (out ! 0)"
proof -
  have h: "set required_columns \<subseteq> set required_columns" by simp
  have l: "0 < length zero_booked_rows" by (simp add: zero_booked_rows_def)
  have c: "created (zero_booked_rows ! 0) = None \<or> goal_start (zero_booked_rows ! 0) = None"
    by (simp add: zero_booked_rows_def)
  from missing_date_not_late[OF h l c] obtain out where
    o: "flag_engine required_columns zero_booked_rows = Inr out" and
    s: "sla_breach (out ! 0) \<longleftrightarrow>
        of_int (delivered (zero_booked_rows ! 0)) < (90 / 100 :: rat) * of_int (booked (zero_booked_rows ! 0))"
    by blast
  from s have "\<not> sla_breach (out ! 0)" by (simp add: zero_booked_rows_def)
  moreover have "created (zero_booked_rows ! 0) = None" by (simp add: zero_booked_rows_def)
  ultimately show ?thesis using o by blast
qed

text \<open>
  Claim C7, amended. For a row that booked nothing the pipeline returns, and the
  Underdelivery flag is false exactly when the delivered impressions are not negative:
  it is false when they are zero and also when they are positive. The counterexample
  is a row with zero booked and five delivered impressions, whose flag is false.
\<close>

theorem underdelivery_zero_booked:
  assumes "set required_columns \<subseteq> set cols"
    and "i < length rs"
    and "booked (rs ! i) = 0"
  shows "\<exists>out. flag_engine cols rs = Inr out \<and> length out = length rs \<and>
     src (out ! i) = rs ! i \<and>
     (\<not> underdelivery (out ! i) \<longleftrightarrow> 0 \<le> delivered (rs ! i))"
  using flag_engine_total[OF assms(1), of rs] assms(2,3)
  by (auto simp: compute_underdelivery_def)

theorem underdelivery_zero_booked_witness:
  "\<exists>out. flag_engine required_columns zero_booked_rows = Inr out \<and>
     booked (zero_booked_rows ! 0) = 0 \<and> delivered (zero_booked_rows ! 0) = 5 \<and>
     \<not> underdelivery (out ! 0)"
proof -
  have h: "set required_columns \<subseteq> set required_columns" by simp
  have l: "0 < length zero_booked_rows" by (simp add: zero_booked_rows_def)
  have b: "booked (zero_booked_rows ! 0) = 0" by (simp add: zero_booked_rows_def)
  have d: "delivered (zero_booked_rows ! 0) = 5" by (simp add: zero_booked_rows_def)
  from underdelivery_zero_booked[OF h l b] obtain out where
    o: "flag_engine required_columns zero_booked_rows = Inr out" and
    u: "\<not> underdelivery (out ! 0) \<longleftrightarrow> 0 \<le> delivered (zero_booked_rows ! 0)"
    by blast
  from u d have "\<not> underdelivery (out ! 0)" by simp
  with o b d show ?thesis by blast
qed

theorem underdelivery_zero_booked_counterexample:
  "booked (zero_booked_rows ! 0) = 0 \<and>
   flag_engine required_columns zero_booked_rows =
     Inr [\<lparr>src = zero_booked_rows ! 0, overbooking = False, overbooking_grouped = Some False,
           underdelivery = False, sla_breach = False\<rparr>] \<and>
   delivered (zero_booked_rows ! 0) \<noteq> 0"
  by code_simp

subsection \<open>The column Overbooking\<close>

text \<open>
  The column \<open>Overbooking\<close> keeps the value of line 41 in every row; the flag of the
  group is in the column \<open>Overbooking_grouped\<close>.
\<close>

lemma overbooking_False:
  assumes "flag_engine cols rs = Inr out" and "f \<in> set out"
  shows "\<not> overbooking f"
  using assms(2) unfolding flag_engine_Inr[OF assms(1)] add_overbooking_eq by auto

lemma overbooking_grouped_value:
  assumes "flag_engine cols rs = Inr out" and "i < length rs"
    and "goal_start (rs ! i) \<noteq> None" and "goal_end (rs ! i) \<noteq> None"
  shows "overbooking_grouped (out ! i) =
     Some (PAGE_CAPACITY < sum_list (map booked (filter (\<lambda>r. group_key r = group_key (rs ! i)) rs)))"
proof -
  from assms(3,4) obtain s e where se: "goal_start (rs ! i) = Some s" "goal_end (rs ! i) = Some e"
    by auto
  then have k: "key_of (rs ! i) = Some (page (rs ! i), property (rs ! i), s, e)"
    by (simp add: key_of_def)
  have e: "(\<lambda>r. key_of r = Some (page (rs ! i), property (rs ! i), s, e)) =
      (\<lambda>r. group_key r = group_key (rs ! i))"
    using se by (auto simp: key_of_def group_key_def fun_eq_iff split: option.splits)
  have "overbooking_grouped (out ! i) =
     Some (PAGE_CAPACITY < sum_list (map booked
       (filter (\<lambda>r. key_of r = Some (page (rs ! i), property (rs ! i), s, e)) rs)))"
    using assms(2) unfolding flag_engine_Inr[OF assms(1)] add_overbooking_eq by (simp add: k)
  then show ?thesis by (simp only: e)
qed

text \<open>
  Claim C5. Two rows of the flagged table with the same page, property, goal start date
  and goal end date carry the same value in the column Overbooking.
\<close>

theorem overbooking_group_invariant:
  assumes "flag_engine cols rs = Inr out"
    and "i < length out" and "j < length out"
    and "group_key (src (out ! i)) = group_key (src (out ! j))"
  shows "overbooking (out ! i) = overbooking (out ! j)"
proof -
  from assms(2,3) have "out ! i \<in> set out" "out ! j \<in> set out" by simp_all
  then show ?thesis using overbooking_False[OF assms(1)] by blast
qed

theorem overbooking_group_invariant_witness:
  "\<exists>out. flag_engine required_columns slot_rows = Inr out \<and> length out = 2 \<and>
     group_key (src (out ! 0)) = group_key (src (out ! 1)) \<and>
     overbooking (out ! 0) = overbooking (out ! 1)"
proof -
  have h: "set required_columns \<subseteq> set required_columns" by simp
  from flag_engine_total[OF h, of slot_rows] obtain out where
    o: "flag_engine required_columns slot_rows = Inr out" and l: "length out = length slot_rows" and
    a: "\<forall>i<length slot_rows. src (out ! i) = slot_rows ! i \<and> \<not> overbooking (out ! i) \<and>
        underdelivery (out ! i) = compute_underdelivery (slot_rows ! i) \<and>
        sla_breach (out ! i) = compute_sla_breach (slot_rows ! i)"
    by blast
  have l2: "length out = 2" using l by (simp add: slot_rows_def)
  then have i: "0 < length out" and j: "1 < length out" by simp_all
  from a l2 l have "src (out ! 0) = slot_rows ! 0" "src (out ! 1) = slot_rows ! 1" by auto
  then have g: "group_key (src (out ! 0)) = group_key (src (out ! 1))"
    by (simp add: slot_rows_def group_key_def)
  from overbooking_group_invariant[OF o i j g] o l2 g show ?thesis by blast
qed

text \<open>
  Claim C1, at the two bookings of one slot: their sum is above the capacity, the merge
  puts the flag of the group in the column Overbooking_grouped, and the column
  Overbooking is false for both rows, in the table that is displayed and in the one that
  is exported; the metric of the overbooking issues is 0.
\<close>

theorem overbooking_column_example:
  "normalize_dates sample_to_datetime required_columns slot_data = ([], Done slot_rows) \<and>
   flag_engine required_columns slot_rows =
     Inr [\<lparr>src = slot_rows ! 0, overbooking = False, overbooking_grouped = Some True,
           underdelivery = True, sla_breach = True\<rparr>,
          \<lparr>src = slot_rows ! 1, overbooking = False, overbooking_grouped = Some True,
           underdelivery = False, sla_breach = True\<rparr>] \<and>
   group_key (slot_rows ! 0) = group_key (slot_rows ! 1) \<and>
   PAGE_CAPACITY < booked (slot_rows ! 0) + booked (slot_rows ! 1) \<and>
   run sample_to_datetime required_columns slot_data ! 4 = Metric ''Overbooking Issues'' 0 \<and>
   run sample_to_datetime required_columns slot_data ! 8 =
     Dataframe
       [\<lparr>d_lead_id = ''L001'', d_line_item_id = ''LI001'', d_page = ''Homepage'',
         d_property = ''Website A'', d_booked = 900000, d_delivered = 450000,
         d_overbooking = False, d_underdelivery = True, d_sla_breach = True\<rparr>,
        \<lparr>d_lead_id = ''L002'', d_line_item_id = ''LI002'', d_page = ''Homepage'',
         d_property = ''Website A'', d_booked = 700000, d_delivered = 700000,
         d_overbooking = False, d_underdelivery = False, d_sla_breach = True\<rparr>] \<and>
   run sample_to_datetime required_columns slot_data ! 9 =
     DownloadButton
       [\<lparr>d_lead_id = ''L001'', d_line_item_id = ''LI001'', d_page = ''Homepage'',
         d_property = ''Website A'', d_booked = 900000, d_delivered = 450000,
         d_overbooking = False, d_underdelivery = True, d_sla_breach = True\<rparr>,
        \<lparr>d_lead_id = ''L002'', d_line_item_id = ''LI002'', d_page = ''Homepage'',
         d_property = ''Website A'', d_booked = 700000, d_delivered = 700000,
         d_overbooking = False, d_underdelivery = False, d_sla_breach = True\<rparr>]"
  by code_simp

subsection \<open>Fill rates\<close>



text \<open>
  Claim C4, at a table whose only row booked nothing and delivered five impressions:
  the fill rate of its page and of its property is the result of the division by zero,
  \<open>inf\<close>.
\<close>

theorem rollup_fill_rate_example:
  "flag_engine required_columns zero_booked_rows =
     Inr [\<lparr>src = zero_booked_rows ! 0, overbooking = False, overbooking_grouped = Some False,
           underdelivery = False, sla_breach = False\<rparr>] \<and>
   page_metrics [\<lparr>src = zero_booked_rows ! 0, overbooking = False, overbooking_grouped = Some False,
           underdelivery = False, sla_breach = False\<rparr>] =
     [\<lparr>dimension = ''Article'', booked_sum = 0, delivered_sum = 5, campaign_count = 1,
       overbooking_rate = 0, underdelivery_rate = 0, sla_breach_rate = 0,
       fill_rate_pct = PosInf\<rparr>] \<and>
   property_metrics [\<lparr>src = zero_booked_rows ! 0, overbooking = False, overbooking_grouped = Some False,
           underdelivery = False, sla_breach = False\<rparr>] =
     [\<lparr>dimension = ''Website B'', booked_sum = 0, delivered_sum = 5, campaign_count = 1,
       overbooking_rate = 0, underdelivery_rate = 0, sla_breach_rate = 0,
       fill_rate_pct = PosInf\<rparr>]"
  by code_simp

subsection \<open>Date conversion\<close>




subsection \<open>Missing columns\<close>








lemma required_columns_message_lists:
  "required_columns_message =
     concat (map (\<lambda>c. ''- '' @ c @ ''\<newline>'') (butlast required_columns)) @
     ''- '' @ last required_columns"
  by (simp add: required_columns_message_def required_columns_def)




end
